theory Spec2Isabelle
  imports Main "HOL-Library.Code_Target_Numeral"
begin

section \<open>Errors, levels and events\<close>

text \<open>
  Go errors as values. \<open>New msg\<close> is \<^verbatim>\<open>errors.New(msg)\<close>, \<open>Errorf prefix err\<close> is
  \<^verbatim>\<open>fmt.Errorf(prefix + ": %w", err)\<close> (the wrapped error stays reachable), and
  \<open>Lib msg\<close> is an error handed back by one of the libraries the package calls
  (encoding/json, fluent-logger-golang, zap). A Go \<^verbatim>\<open>error\<close> that may be nil is an
  \<open>error option\<close>, \<open>None\<close> being nil.
\<close>

datatype error = New string | Errorf string error | Lib string

definition ErrLoggerClosed :: error where
  "ErrLoggerClosed = New ''logger is closed''"

text \<open>zapcore.Level, in the order of its numeric values (DebugLevel = -1 up to FatalLevel = 5).\<close>

datatype level =
  DebugLevel | InfoLevel | WarnLevel | ErrorLevel | DPanicLevel | PanicLevel | FatalLevel

fun level_value :: "level \<Rightarrow> int" where
  "level_value DebugLevel = -1"
| "level_value InfoLevel = 0"
| "level_value WarnLevel = 1"
| "level_value ErrorLevel = 2"
| "level_value DPanicLevel = 3"
| "level_value PanicLevel = 4"
| "level_value FatalLevel = 5"

text \<open>The decoded log record, \<^verbatim>\<open>map[string]interface{}\<close>, as an association list of JSON values.\<close>

datatype json =
  JNull | JBool bool | JNumber int | JString string | JArray "json list"
  | JObject "(string \<times> json) list"

type_synonym entry = "(string \<times> json) list"

text \<open>
  What the package does to the outside, in the order it does it: the store to the
  \<^verbatim>\<open>closed\<close> flag, every \<^verbatim>\<open>PostWithTime\<close> call on the fluent client (with its tag,
  timestamp in nanoseconds and record), the call of the client's \<^verbatim>\<open>Close\<close> and the
  return of that call.
\<close>

datatype event =
  StoreClosed
  | PostCalled string int entry
  | CloseCalled
  | CloseReturned

section \<open>The collaborators\<close>

text \<open>
  The libraries are not part of the package; their behaviour is a parameter.
  \<^item> \<open>json_Unmarshal p\<close>: \<^verbatim>\<open>json.Unmarshal(p, &entry)\<close>, the error or the decoded map;
  \<^item> \<open>PostWithTime evs tag tm entry\<close>: the error (or nil) the fluent client returns for
    this post, which may depend on everything done so far;
  \<^item> \<open>Close_takes\<close>: how many nanoseconds the client's \<^verbatim>\<open>Close\<close> runs before it returns,
    \<open>None\<close> when it never returns; \<open>Close_result\<close>: the error (or nil) it returns;
  \<^item> \<open>select_done_on_tie\<close>: which case Go's \<^verbatim>\<open>select\<close> takes when the \<^verbatim>\<open>done\<close> channel
    and the timer are ready at the same instant (the runtime picks one of the ready
    cases).
\<close>

record env =
  json_Unmarshal :: "string \<Rightarrow> error + entry"
  PostWithTime :: "event list \<Rightarrow> string \<Rightarrow> int \<Rightarrow> entry \<Rightarrow> error option"
  Close_takes :: "nat option"
  Close_result :: "error option"
  select_done_on_tie :: bool

text \<open>
  The words "a well-formed JSON object", as far as the statements below need them. By
  the JSON grammar an object is white space (space, tab, line feed, carriage return),
  an opening brace, its members, a closing brace and white space. So bytes whose first
  byte after white space is not an opening brace are no JSON object.
\<close>

definition JSON_ws :: "char \<Rightarrow> bool" where
  "JSON_ws c \<longleftrightarrow> c = CHR '' '' \<or> c = CHR 0x09 \<or> c = CHR 0x0A \<or> c = CHR 0x0D"

definition opens_JSON_object :: "string \<Rightarrow> bool" where
  "opens_JSON_object p = (case dropWhile JSON_ws p of [] \<Rightarrow> False | c # rest \<Rightarrow> c = CHR ''{'')"

section \<open>FluentLogger: the write syncer\<close>

text \<open>
  \<^verbatim>\<open>type FluentLogger struct { logger *fluent.Fluent; tag string; closed atomic.Bool;
  timeout time.Duration }\<close> (the second file has \<^verbatim>\<open>mu sync.Mutex\<close> and a plain
  \<^verbatim>\<open>closed bool\<close>). The client \<^verbatim>\<open>logger\<close> is represented by \<open>events\<close>, the calls made on
  it so far. \<open>closing\<close> is the goroutine that the first file's \<^verbatim>\<open>Sync\<close> starts and may
  leave behind: \<open>None\<close> when there is none, \<open>Some r\<close> while the client's \<^verbatim>\<open>Close\<close> is
  still running in it, with \<open>r\<close> the nanoseconds it still needs (\<open>None\<close>: for ever).
  Durations are nanoseconds, \<^verbatim>\<open>time.Duration\<close> being a signed integer.

  The functions below are one caller's sequential view: \<^verbatim>\<open>mu.Lock()\<close> and the deferred
  \<^verbatim>\<open>mu.Unlock()\<close> of the second file enclose each whole call and change nothing in it.
  A call that never returns keeps the mutex, and no call follows it.
\<close>

record FluentLogger =
  tag :: string
  closed :: bool
  timeout :: int
  events :: "event list"
  closing :: "nat option option"

text \<open>
  \<^verbatim>\<open>func (f *FluentLogger) Write(p []byte) (int, error)\<close> of the first file (atomic
  flag); \<open>now\<close> is what \<^verbatim>\<open>time.Now()\<close> returns in this call.
\<close>

definition Write_atomic ::
  "env \<Rightarrow> int \<Rightarrow> string \<Rightarrow> FluentLogger \<Rightarrow> (nat \<times> error option) \<times> FluentLogger" where
  "Write_atomic E now p f =
     (if closed f then ((0, Some ErrLoggerClosed), f)
      else
        (case json_Unmarshal E p of
           Inl err \<Rightarrow> ((0, Some (Errorf ''log decode failed'' err)), f)
         | Inr ent \<Rightarrow>
             (let f' = f\<lparr>events := events f @ [PostCalled (tag f) now ent]\<rparr> in
              (case PostWithTime E (events f) (tag f) now ent of
                 Some err \<Rightarrow> ((0, Some (Errorf ''log delivery failed'' err)), f')
               | None \<Rightarrow> ((length p, None), f')))))"

text \<open>\<^verbatim>\<open>Write\<close> of the second file (mutex); only the message of the delivery error differs.\<close>

definition Write_mutex ::
  "env \<Rightarrow> int \<Rightarrow> string \<Rightarrow> FluentLogger \<Rightarrow> (nat \<times> error option) \<times> FluentLogger" where
  "Write_mutex E now p f =
     (if closed f then ((0, Some ErrLoggerClosed), f)
      else
        (case json_Unmarshal E p of
           Inl err \<Rightarrow> ((0, Some (Errorf ''log decode failed'' err)), f)
         | Inr ent \<Rightarrow>
             (let f' = f\<lparr>events := events f @ [PostCalled (tag f) now ent]\<rparr> in
              (case PostWithTime E (events f) (tag f) now ent of
                 Some err \<Rightarrow> ((0, Some (Errorf ''failed to send log entry'' err)), f')
               | None \<Rightarrow> ((length p, None), f')))))"

text \<open>
  \<^verbatim>\<open>func (f *FluentLogger) Sync() error\<close> of the first file. \<^verbatim>\<open>closed.Swap(true)\<close>
  returning true ends the call with nil. Otherwise the flag is now set, a goroutine calls
  the client's \<^verbatim>\<open>Close\<close> (its result is dropped) and closes \<^verbatim>\<open>done\<close>, and the
  \<^verbatim>\<open>select\<close> takes whichever of \<^verbatim>\<open>done\<close> and \<^verbatim>\<open>time.After(f.timeout)\<close> is ready
  first; a timer with a duration of zero or less is ready at once. When the timer wins,
  the goroutine is left running with the time \<^verbatim>\<open>Close\<close> still needs.
\<close>

definition Sync_atomic :: "env \<Rightarrow> FluentLogger \<Rightarrow> error option \<times> FluentLogger" where
  "Sync_atomic E f =
     (if closed f then (None, f)
      else
        (let f1 = f\<lparr>closed := True, events := events f @ [StoreClosed]\<rparr>;
             f2 = f1\<lparr>events := events f1 @ [CloseCalled]\<rparr>;
             t = nat (timeout f)
         in (case Close_takes E of
               None \<Rightarrow> (Some (New ''fluent log flush timed out''), f2\<lparr>closing := Some None\<rparr>)
             | Some d \<Rightarrow>
                 if d < t \<or> (d = t \<and> select_done_on_tie E)
                 then (None, f2\<lparr>events := events f2 @ [CloseReturned]\<rparr>)
                 else (Some (New ''fluent log flush timed out''),
                       f2\<lparr>closing := Some (Some (d - t))\<rparr>))))"

text \<open>
  Time passing after a call has returned: a goroutine left behind by \<open>Sync_atomic\<close>
  goes on, nothing in the package stops it, and the client's \<^verbatim>\<open>Close\<close> returns in it
  once its remaining time is used up.
\<close>

definition elapse :: "nat \<Rightarrow> FluentLogger \<Rightarrow> FluentLogger" where
  "elapse dt f =
     (case closing f of
        Some (Some r) \<Rightarrow>
          if r \<le> dt then f\<lparr>events := events f @ [CloseReturned], closing := None\<rparr>
          else f\<lparr>closing := Some (Some (r - dt))\<rparr>
      | _ \<Rightarrow> f)"

text \<open>
  \<^verbatim>\<open>Sync\<close> of the second file: under the mutex, nil when already closed; otherwise it sets
  the flag and returns what the client's \<^verbatim>\<open>Close\<close> returns, in the calling goroutine and
  without any timer. The outer \<open>None\<close> is a call that never returns, because \<^verbatim>\<open>Close\<close>
  never does.
\<close>

definition Sync_mutex :: "env \<Rightarrow> FluentLogger \<Rightarrow> error option option \<times> FluentLogger" where
  "Sync_mutex E f =
     (if closed f then (Some None, f)
      else
        (let f1 = f\<lparr>closed := True, events := events f @ [StoreClosed]\<rparr>;
             f2 = f1\<lparr>events := events f1 @ [CloseCalled]\<rparr>
         in (case Close_takes E of
               None \<Rightarrow> (None, f2)
             | Some d \<Rightarrow> (Some (Close_result E), f2\<lparr>events := events f2 @ [CloseReturned]\<rparr>))))"

subsection \<open>Sequences of calls on one FluentLogger\<close>

datatype call = CallWrite int string | CallSync

datatype returned = Wrote nat "error option" | Synced "error option" | NeverReturns

fun run_atomic :: "env \<Rightarrow> call list \<Rightarrow> FluentLogger \<Rightarrow> returned list \<times> FluentLogger" where
  "run_atomic E [] f = ([], f)"
| "run_atomic E (CallWrite now p # cs) f =
     (let (r, f') = Write_atomic E now p f; (rs, f'') = run_atomic E cs f'
      in (Wrote (fst r) (snd r) # rs, f''))"
| "run_atomic E (CallSync # cs) f =
     (let (e, f') = Sync_atomic E f; (rs, f'') = run_atomic E cs f'
      in (Synced e # rs, f''))"

text \<open>In the second file a call that never returns ends the sequence.\<close>

fun run_mutex :: "env \<Rightarrow> call list \<Rightarrow> FluentLogger \<Rightarrow> returned list \<times> FluentLogger" where
  "run_mutex E [] f = ([], f)"
| "run_mutex E (CallWrite now p # cs) f =
     (let (r, f') = Write_mutex E now p f; (rs, f'') = run_mutex E cs f'
      in (Wrote (fst r) (snd r) # rs, f''))"
| "run_mutex E (CallSync # cs) f =
     (case Sync_mutex E f of
        (None, f') \<Rightarrow> ([NeverReturns], f')
      | (Some e, f') \<Rightarrow> (let (rs, f'') = run_mutex E cs f' in (Synced e # rs, f'')))"

text \<open>What a closed logger answers: the closed error and 0 to a write, nil to a sync.\<close>

fun closed_answer :: "call \<Rightarrow> returned" where
  "closed_answer (CallWrite now p) = Wrote 0 (Some ErrLoggerClosed)"
| "closed_answer CallSync = Synced None"

section \<open>Level parsing\<close>

text \<open>
  \<^verbatim>\<open>strings.ToUpper\<close>, up to the spelling of results outside ASCII. Go maps every code
  point of the UTF-8 string to its upper case. An ASCII letter from \<^verbatim>\<open>'a'\<close> to \<^verbatim>\<open>'z'\<close>
  loses 32. Exactly two code points outside ASCII have an upper case inside it: U+0131,
  the dotless i (bytes C4 B1), becomes \<^verbatim>\<open>'I'\<close>, and U+017F, the long s (bytes C5 BF),
  becomes \<^verbatim>\<open>'S'\<close>; the bytes C4 and C5 are never continuation bytes, so the two pairs
  mean these code points wherever they stand. Every other code point outside ASCII, and
  every byte that is not valid UTF-8 (Go writes U+FFFD for it), gives bytes outside
  ASCII; their bytes are kept here as they are. So the result is a given string of ASCII
  bytes exactly when Go's is, which is all that \<^verbatim>\<open>parseLogLevel\<close> asks of it.
\<close>

definition isASCII :: "string \<Rightarrow> bool" where
  "isASCII s = list_all (\<lambda>c. (of_char c :: nat) < 128) s"

definition toUpper_byte :: "char \<Rightarrow> char" where
  "toUpper_byte c =
     (let n = of_char c :: nat in if 97 \<le> n \<and> n \<le> 122 then char_of (n - 32) else c)"

fun strings_ToUpper :: "string \<Rightarrow> string" where
  "strings_ToUpper [] = []"
| "strings_ToUpper [c] = [toUpper_byte c]"
| "strings_ToUpper (c # d # s) =
     (if c = CHR 0xC4 \<and> d = CHR 0xB1 then CHR ''I'' # strings_ToUpper s
      else if c = CHR 0xC5 \<and> d = CHR 0xBF then CHR ''S'' # strings_ToUpper s
      else toUpper_byte c # strings_ToUpper (d # s))"

text \<open>\<open>c\<close> is the upper-case ASCII letter \<open>u\<close> or its lower-case form.\<close>

definition sameLetter :: "char \<Rightarrow> char \<Rightarrow> bool" where
  "sameLetter c u \<longleftrightarrow> c = u \<or> (of_char c :: nat) = of_char u + 32"

definition defaultLogLevel :: level where
  "defaultLogLevel = DebugLevel"

definition compatibleLevelWarningUpperCase :: string where
  "compatibleLevelWarningUpperCase = ''WARNING''"

text \<open>
  \<^verbatim>\<open>func parseLogLevel(lvl string) zapcore.Level\<close>. \<open>UnmarshalText\<close> is zap's
  \<^verbatim>\<open>(*Level).UnmarshalText\<close>: the level it stores, or its error, in which case the
  receiver keeps the default it was initialised with.
\<close>

definition parseLogLevel :: "(string \<Rightarrow> error + level) \<Rightarrow> string \<Rightarrow> level" where
  "parseLogLevel UnmarshalText lvl =
     (case UnmarshalText lvl of
        Inr decoded \<Rightarrow> decoded
      | Inl err \<Rightarrow>
          if strings_ToUpper lvl = compatibleLevelWarningUpperCase then WarnLevel
          else defaultLogLevel)"

text \<open>
  Modelled from the spec: zap's level decoder is not part of the package; this is the
  decoder as the specification words it, accepting exactly the canonical names, case
  sensitively. It serves as a sample decoder.
\<close>

definition canonical_UnmarshalText :: "string \<Rightarrow> error + level" where
  "canonical_UnmarshalText s =
     (if s = ''debug'' then Inr DebugLevel
      else if s = ''info'' then Inr InfoLevel
      else if s = ''warn'' then Inr WarnLevel
      else if s = ''error'' then Inr ErrorLevel
      else if s = ''dpanic'' then Inr DPanicLevel
      else if s = ''panic'' then Inr PanicLevel
      else if s = ''fatal'' then Inr FatalLevel
      else Inl (Lib ''unrecognized level''))"

section \<open>Construction\<close>

definition defaultFluentTag :: string where
  "defaultFluentTag = ''app.logs''"

definition defaultShutdownTimeout :: int where
  "defaultShutdownTimeout = 5 * 1000000000"

text \<open>\<^verbatim>\<open>fluent.Config\<close>; of its fields the package reads \<^verbatim>\<open>Timeout\<close> only.\<close>

record fluent_Config =
  FluentNetwork :: string
  FluentHost :: string
  FluentPort :: int
  Timeout :: int

record SugaredLoggerConfig =
  FluentConfig :: fluent_Config
  Tag :: string
  LogLevel :: string

text \<open>
  \<^verbatim>\<open>type SugaredLogger struct { *zap.SugaredLogger; fluent *FluentLogger; closeOnce
  sync.Once }\<close>, and \<^verbatim>\<open>WrappedLogger\<close> of the second file, which has the same fields. Of
  the embedded zap logger the level of its core is kept; \<open>closeOnce\<close> is whether the
  \<^verbatim>\<open>sync.Once\<close> has run.
\<close>

record SugaredLogger =
  core_level :: level
  fluent :: FluentLogger
  closeOnce :: bool

type_synonym WrappedLogger = SugaredLogger

text \<open>
  \<^verbatim>\<open>func NewSugaredLogger(cfg *SugaredLoggerConfig) (*SugaredLogger, error)\<close>.
  \<open>fluent_New\<close> is \<^verbatim>\<open>fluent.New\<close>: its error, or nil with a fresh client. The defaults
  are written into the caller's configuration before \<^verbatim>\<open>fluent.New\<close> sees it.
\<close>

definition NewSugaredLogger ::
  "(fluent_Config \<Rightarrow> error option) \<Rightarrow> (string \<Rightarrow> error + level) \<Rightarrow> SugaredLoggerConfig
     \<Rightarrow> error + SugaredLogger" where
  "NewSugaredLogger fluent_New UnmarshalText cfg =
     (let cfg1 = (if SugaredLoggerConfig.Tag cfg = [] then cfg\<lparr>SugaredLoggerConfig.Tag := defaultFluentTag\<rparr>
                  else cfg);
          cfg2 = (if fluent_Config.Timeout (FluentConfig cfg1) = 0
                  then cfg1\<lparr>FluentConfig :=
                         (FluentConfig cfg1)\<lparr>fluent_Config.Timeout := defaultShutdownTimeout\<rparr>\<rparr>
                  else cfg1)
      in (case fluent_New (FluentConfig cfg2) of
            Some err \<Rightarrow> Inl (Errorf ''failed to create fluent logger'' err)
          | None \<Rightarrow>
              Inr \<lparr>core_level = parseLogLevel UnmarshalText (LogLevel cfg2),
                   fluent = \<lparr>tag = SugaredLoggerConfig.Tag cfg2, closed = False,
                             timeout = fluent_Config.Timeout (FluentConfig cfg2),
                             events = [], closing = None\<rparr>,
                   closeOnce = False\<rparr>))"

text \<open>The configuration of the second file, \<^verbatim>\<open>type FluentConfig struct\<close>.\<close>

record FluentConfig =
  Fluent :: fluent_Config
  Tag :: string
  Timeout :: int

text \<open>
  \<^verbatim>\<open>func NewWrappedLogger(cfg FluentConfig) (*WrappedLogger, error)\<close>; the core's level
  is the constant \<^verbatim>\<open>zapcore.InfoLevel\<close>.
\<close>

definition NewWrappedLogger ::
  "(fluent_Config \<Rightarrow> error option) \<Rightarrow> FluentConfig \<Rightarrow> error + WrappedLogger" where
  "NewWrappedLogger fluent_New cfg =
     (let cfg1 = (if FluentConfig.Tag cfg = [] then cfg\<lparr>FluentConfig.Tag := defaultFluentTag\<rparr>
                  else cfg);
          cfg2 = (if FluentConfig.Timeout cfg1 = 0
                  then cfg1\<lparr>FluentConfig.Timeout := defaultShutdownTimeout\<rparr> else cfg1)
      in (case fluent_New (Fluent cfg2) of
            Some err \<Rightarrow> Inl (Errorf ''failed to create fluent logger'' err)
          | None \<Rightarrow>
              Inr \<lparr>core_level = InfoLevel,
                   fluent = \<lparr>tag = FluentConfig.Tag cfg2, closed = False,
                             timeout = FluentConfig.Timeout cfg2,
                             events = [], closing = None\<rparr>,
                   closeOnce = False\<rparr>))"

section \<open>Close\<close>

text \<open>
  \<^verbatim>\<open>func (l *SugaredLogger) Close() error\<close>. A nil handle is \<open>None\<close>. \<open>zap_Sync\<close> is
  \<^verbatim>\<open>l.SugaredLogger.Sync()\<close>, zap's own method, acting on the write syncer it was built
  on. The context made from the timeout is dropped by the source and has no effect.
  The local \<^verbatim>\<open>err\<close> starts as nil in every call; \<^verbatim>\<open>closeOnce.Do\<close> runs its body in the
  first call only.
\<close>

definition SugaredLogger_Close ::
  "env \<Rightarrow> (FluentLogger \<Rightarrow> error option \<times> FluentLogger) \<Rightarrow> SugaredLogger option
     \<Rightarrow> error option \<times> SugaredLogger option" where
  "SugaredLogger_Close E zap_Sync h =
     (case h of
        None \<Rightarrow> (None, None)
      | Some l \<Rightarrow>
          if closeOnce l then (None, Some l)
          else
            (let (syncErr, f1) = zap_Sync (fluent l);
                 err = (case syncErr of
                          Some e \<Rightarrow> Some (Errorf ''zap sync failed'' e)
                        | None \<Rightarrow> None);
                 (fluentErr, f2) = Sync_atomic E f1;
                 err' = (case fluentErr of
                           Some e \<Rightarrow> Some (Errorf ''fluent close failed'' e)
                         | None \<Rightarrow> err)
             in (err', Some (l\<lparr>fluent := f2, closeOnce := True\<rparr>))))"

text \<open>
  \<^verbatim>\<open>func (l *WrappedLogger) Close() error\<close> of the second file: \<^verbatim>\<open>err = l.Sync()\<close> is
  zap's sync, then \<^verbatim>\<open>l.fluent.Sync()\<close> is called and its result dropped. The outer
  \<open>None\<close> is a call that never returns; the \<^verbatim>\<open>sync.Once\<close> is then never marked done.
\<close>

definition WrappedLogger_Close ::
  "env \<Rightarrow> (FluentLogger \<Rightarrow> error option option \<times> FluentLogger) \<Rightarrow> WrappedLogger option
     \<Rightarrow> error option option \<times> WrappedLogger option" where
  "WrappedLogger_Close E zap_Sync h =
     (case h of
        None \<Rightarrow> (Some None, None)
      | Some l \<Rightarrow>
          if closeOnce l then (Some None, Some l)
          else
            (case zap_Sync (fluent l) of
               (None, f1) \<Rightarrow> (None, Some (l\<lparr>fluent := f1\<rparr>))
             | (Some err, f1) \<Rightarrow>
                 (case Sync_mutex E f1 of
                    (None, f2) \<Rightarrow> (None, Some (l\<lparr>fluent := f2\<rparr>))
                  | (Some dropped, f2) \<Rightarrow>
                      (Some err, Some (l\<lparr>fluent := f2, closeOnce := True\<rparr>)))))"

text \<open>\<open>n\<close> calls of \<^verbatim>\<open>Close\<close> on one handle, one after the other, with what each returns.\<close>

fun SugaredLogger_Close_times ::
  "env \<Rightarrow> (FluentLogger \<Rightarrow> error option \<times> FluentLogger) \<Rightarrow> nat \<Rightarrow> SugaredLogger option
     \<Rightarrow> error option list \<times> SugaredLogger option" where
  "SugaredLogger_Close_times E zap_Sync 0 h = ([], h)"
| "SugaredLogger_Close_times E zap_Sync (Suc n) h =
     (let (e, h') = SugaredLogger_Close E zap_Sync h;
          (es, h'') = SugaredLogger_Close_times E zap_Sync n h'
      in (e # es, h''))"

fun WrappedLogger_Close_times ::
  "env \<Rightarrow> (FluentLogger \<Rightarrow> error option option \<times> FluentLogger) \<Rightarrow> nat \<Rightarrow> WrappedLogger option
     \<Rightarrow> error option option list \<times> WrappedLogger option" where
  "WrappedLogger_Close_times E zap_Sync 0 h = ([], h)"
| "WrappedLogger_Close_times E zap_Sync (Suc n) h =
     (case WrappedLogger_Close E zap_Sync h of
        (None, h') \<Rightarrow> ([None], h')
      | (Some e, h') \<Rightarrow>
          (let (es, h'') = WrappedLogger_Close_times E zap_Sync n h' in (Some e # es, h'')))"

section \<open>Leveled log calls\<close>

text \<open>
  Modelled from the spec: the level gate and the encoder are zap's, not the package's.
  The specification's words: level filtering happens before encoding, and records below
  the configured minimum level are dropped with no interaction with the sink. A record
  that passes is encoded and handed to \<^verbatim>\<open>Write\<close> of the write syncer the core was built
  on; \<open>encode\<close> is the JSON encoder the constructor configures.
\<close>

definition SugaredLogger_log ::
  "env \<Rightarrow> (level \<Rightarrow> string \<Rightarrow> entry \<Rightarrow> string) \<Rightarrow> int \<Rightarrow> level \<Rightarrow> string \<Rightarrow> entry
     \<Rightarrow> SugaredLogger \<Rightarrow> SugaredLogger" where
  "SugaredLogger_log E encode now lvl msg kvs l =
     (if level_value lvl < level_value (core_level l) then l
      else l\<lparr>fluent := snd (Write_atomic E now (encode lvl msg kvs) (fluent l))\<rparr>)"

text \<open>
  Modelled from the spec: the same gate in front of \<^verbatim>\<open>Write\<close> of the second file, whose
  core is built on its own FluentLogger in the same way.
\<close>

definition WrappedLogger_log ::
  "env \<Rightarrow> (level \<Rightarrow> string \<Rightarrow> entry \<Rightarrow> string) \<Rightarrow> int \<Rightarrow> level \<Rightarrow> string \<Rightarrow> entry
     \<Rightarrow> WrappedLogger \<Rightarrow> WrappedLogger" where
  "WrappedLogger_log E encode now lvl msg kvs l =
     (if level_value lvl < level_value (core_level l) then l
      else l\<lparr>fluent := snd (Write_mutex E now (encode lvl msg kvs) (fluent l))\<rparr>)"

section \<open>Sample collaborators and loggers\<close>

text \<open>
  A decoder that knows the record \<^verbatim>\<open>{"message":"hi"}\<close> and the empty object, accepts
  the literal \<^verbatim>\<open>null\<close> as Go's \<^verbatim>\<open>json.Unmarshal\<close> does for a map (no error; the map
  stays nil, which reads as the empty record), and rejects everything else; and a
  client whose posts succeed unless the record is empty.
\<close>

definition sample_Unmarshal :: "string \<Rightarrow> error + entry" where
  "sample_Unmarshal p =
     (if p = ''{\"message\":\"hi\"}'' then Inr [(''message'', JString ''hi'')]
      else if p = ''{}'' then Inr []
      else if p = ''null'' then Inr []
      else Inl (Lib ''invalid character''))"

definition sample_Post :: "event list \<Rightarrow> string \<Rightarrow> int \<Rightarrow> entry \<Rightarrow> error option" where
  "sample_Post evs tg tm ent = (if ent = [] then Some (Lib ''buffer full'') else None)"

definition sample_env :: "nat option \<Rightarrow> env" where
  "sample_env d =
     \<lparr>json_Unmarshal = sample_Unmarshal, PostWithTime = sample_Post, Close_takes = d,
      Close_result = None, select_done_on_tie = True\<rparr>"

text \<open>The same collaborators with a client that takes every post.\<close>

definition accepting_env :: env where
  "accepting_env = (sample_env None)\<lparr>PostWithTime := (\<lambda>evs tg tm ent. None)\<rparr>"

definition open_logger :: FluentLogger where
  "open_logger =
     \<lparr>tag = ''app.logs'', closed = False, timeout = 50000000, events = [], closing = None\<rparr>"

text \<open>A handle on the open sample logger.\<close>

definition sample_handle :: SugaredLogger where
  "sample_handle = \<lparr>core_level = WarnLevel, fluent = open_logger, closeOnce = False\<rparr>"

text \<open>Configurations that leave the tag and the timeout unset, and a \<^verbatim>\<open>fluent.New\<close> that succeeds.\<close>

definition sample_fluent_Config :: fluent_Config where
  "sample_fluent_Config =
     \<lparr>FluentNetwork = ''tcp'', FluentHost = ''127.0.0.1'', FluentPort = 24224, Timeout = 0\<rparr>"

definition sample_SugaredLoggerConfig :: SugaredLoggerConfig where
  "sample_SugaredLoggerConfig =
     \<lparr>FluentConfig = sample_fluent_Config, Tag = [], LogLevel = ''WARNING''\<rparr>"

definition sample_FluentConfig :: FluentConfig where
  "sample_FluentConfig = \<lparr>Fluent = sample_fluent_Config, Tag = [], Timeout = 0\<rparr>"

definition sample_fluent_New :: "fluent_Config \<Rightarrow> error option" where
  "sample_fluent_New c = (if FluentNetwork c = ''tcp'' then None else Some (Lib ''unknown network''))"

text \<open>An encoder that writes the one record the sample decoder knows.\<close>

definition sample_encode :: "level \<Rightarrow> string \<Rightarrow> entry \<Rightarrow> string" where
  "sample_encode lvl msg kvs = ''{\"message\":\"hi\"}''"

text \<open>How often the client's \<^verbatim>\<open>Close\<close> has been called.\<close>

definition close_calls :: "FluentLogger \<Rightarrow> nat" where
  "close_calls f = length (filter (\<lambda>ev. ev = CloseCalled) (events f))"

section \<open>Write\<close>

text \<open>
  C1, as the code has it. Every call of \<open>Write\<close>, in both files: with the closed flag
  set it returns \<open>ErrLoggerClosed\<close> and 0; otherwise, when \<^verbatim>\<open>json.Unmarshal\<close> returns an
  error for the bytes, that error wrapped and 0; otherwise, when the post fails, the
  transport's error wrapped and 0; otherwise no error and the length of the input. So
  the count is the whole length exactly when there is no error, and 0 otherwise.
\<close>

theorem Write_outcomes:
  "(closed f \<longrightarrow>
      fst (Write_atomic E now p f) = (0, Some ErrLoggerClosed) \<and>
      fst (Write_mutex E now p f) = (0, Some ErrLoggerClosed)) \<and>
   (\<not> closed f \<and> json_Unmarshal E p = Inl e \<longrightarrow>
      fst (Write_atomic E now p f) = (0, Some (Errorf ''log decode failed'' e)) \<and>
      fst (Write_mutex E now p f) = (0, Some (Errorf ''log decode failed'' e))) \<and>
   (\<not> closed f \<and> json_Unmarshal E p = Inr ent \<and>
    PostWithTime E (events f) (tag f) now ent = Some e \<longrightarrow>
      fst (Write_atomic E now p f) = (0, Some (Errorf ''log delivery failed'' e)) \<and>
      fst (Write_mutex E now p f) = (0, Some (Errorf ''failed to send log entry'' e))) \<and>
   (\<not> closed f \<and> json_Unmarshal E p = Inr ent \<and>
    PostWithTime E (events f) (tag f) now ent = None \<longrightarrow>
      fst (Write_atomic E now p f) = (length p, None) \<and>
      fst (Write_mutex E now p f) = (length p, None)) \<and>
   fst (fst (Write_atomic E now p f)) =
     (if snd (fst (Write_atomic E now p f)) = None then length p else 0) \<and>
   fst (fst (Write_mutex E now p f)) =
     (if snd (fst (Write_mutex E now p f)) = None then length p else 0)"
  by (simp add: Write_atomic_def Write_mutex_def Let_def split: sum.split option.split)

theorem Write_outcomes_witness:
  "fst (Write_atomic (sample_env None) 7 ''{}'' (open_logger\<lparr>closed := True\<rparr>)) =
     (0, Some ErrLoggerClosed) \<and>
   fst (Write_mutex (sample_env None) 7 ''{'' open_logger) =
     (0, Some (Errorf ''log decode failed'' (Lib ''invalid character''))) \<and>
   fst (Write_atomic (sample_env None) 7 ''{}'' open_logger) =
     (0, Some (Errorf ''log delivery failed'' (Lib ''buffer full''))) \<and>
   fst (Write_mutex (sample_env None) 7 ''{\"message\":\"hi\"}'' open_logger) = (16, None)"
proof -
  let ?E = "sample_env None"
  have c: "closed (open_logger\<lparr>closed := True\<rparr>)" and o: "\<not> closed open_logger"
    by (simp_all add: open_logger_def)
  have bad: "json_Unmarshal ?E ''{'' = Inl (Lib ''invalid character'')"
    and empty: "json_Unmarshal ?E ''{}'' = Inr []"
    and hi: "json_Unmarshal ?E ''{\"message\":\"hi\"}'' = Inr [(''message'', JString ''hi'')]"
    by (simp_all add: sample_env_def sample_Unmarshal_def)
  have full: "PostWithTime ?E (events open_logger) (tag open_logger) 7 [] = Some (Lib ''buffer full'')"
    and sent: "PostWithTime ?E (events open_logger) (tag open_logger) 7 [(''message'', JString ''hi'')] = None"
    by (simp_all add: sample_env_def sample_Post_def)
  show ?thesis
    using Write_outcomes [where f = "open_logger\<lparr>closed := True\<rparr>" and E = ?E and now = 7 and p = "''{}''"]
      Write_outcomes [where f = open_logger and E = ?E and now = 7 and p = "''{''"
        and e = "Lib ''invalid character''"]
      Write_outcomes [where f = open_logger and E = ?E and now = 7 and p = "''{}''"
        and ent = "[]" and e = "Lib ''buffer full''"]
      Write_outcomes [where f = open_logger and E = ?E and now = 7
        and p = "''{\"message\":\"hi\"}''" and ent = "[(''message'', JString ''hi'')]"]
      c o bad empty hi full sent
    by simp
qed

text \<open>
  C1 as it is stated fails: what \<open>Write\<close> asks is whether the decoder returns an error,
  not whether the bytes are a JSON object. The bytes \<^verbatim>\<open>null\<close> are no JSON object, the
  decoder takes them without error, and on an open logger whose client takes the post
  \<open>Write\<close> returns no decode error but success and the count 4, in both files.
\<close>

theorem Write_outcomes_counterexample:
  "\<not> opens_JSON_object ''null'' \<and>
   \<not> closed open_logger \<and>
   json_Unmarshal accepting_env ''null'' = Inr [] \<and>
   fst (Write_atomic accepting_env 7 ''null'' open_logger) = (4, None) \<and>
   fst (Write_mutex accepting_env 7 ''null'' open_logger) = (4, None)"
  by (simp add: opens_JSON_object_def JSON_ws_def Write_atomic_def Write_mutex_def
      accepting_env_def sample_env_def sample_Unmarshal_def open_logger_def)

section \<open>A closed logger\<close>

lemma Write_atomic_closed: "closed f \<Longrightarrow> Write_atomic E now p f = ((0, Some ErrLoggerClosed), f)"
  by (simp add: Write_atomic_def)

lemma Write_mutex_closed: "closed f \<Longrightarrow> Write_mutex E now p f = ((0, Some ErrLoggerClosed), f)"
  by (simp add: Write_mutex_def)

lemma Sync_atomic_closed: "closed f \<Longrightarrow> Sync_atomic E f = (None, f)"
  by (simp add: Sync_atomic_def)

lemma Sync_mutex_closed: "closed f \<Longrightarrow> Sync_mutex E f = (Some None, f)"
  by (simp add: Sync_mutex_def)

lemma run_atomic_closed: "closed f \<Longrightarrow> run_atomic E cs f = (map closed_answer cs, f)"
proof (induction cs)
  case Nil
  show ?case by simp
next
  case (Cons c cs)
  then show ?case
    by (cases c) (simp_all add: Write_atomic_closed Sync_atomic_closed)
qed

lemma run_mutex_closed: "closed f \<Longrightarrow> run_mutex E cs f = (map closed_answer cs, f)"
proof (induction cs)
  case Nil
  show ?case by simp
next
  case (Cons c cs)
  then show ?case
    by (cases c) (simp_all add: Write_mutex_closed Sync_mutex_closed)
qed

lemma closed_after_Sync_atomic: "closed (snd (Sync_atomic E f))"
  by (simp add: Sync_atomic_def Let_def split: option.split)

lemma closed_after_Sync_mutex: "closed (snd (Sync_mutex E f))"
  by (simp add: Sync_mutex_def Let_def split: option.split)

lemma events_Sync_atomic_open:
  "\<not> closed f \<Longrightarrow>
   events (snd (Sync_atomic E f)) = events f @ [StoreClosed, CloseCalled] \<or>
   events (snd (Sync_atomic E f)) = events f @ [StoreClosed, CloseCalled, CloseReturned]"
  by (simp add: Sync_atomic_def Let_def split: option.split)

lemma events_Sync_mutex_open:
  "\<not> closed f \<Longrightarrow>
   events (snd (Sync_mutex E f)) = events f @ [StoreClosed, CloseCalled] \<or>
   events (snd (Sync_mutex E f)) = events f @ [StoreClosed, CloseCalled, CloseReturned]"
  by (simp add: Sync_mutex_def Let_def split: option.split)

lemma Sync_atomic_timed_out:
  "fst (Sync_atomic E f) = Some e \<Longrightarrow>
   \<not> closed f \<and> e = New ''fluent log flush timed out'' \<and>
   events (snd (Sync_atomic E f)) = events f @ [StoreClosed, CloseCalled] \<and>
   closing (snd (Sync_atomic E f)) =
     Some (map_option (\<lambda>d. d - nat (timeout f)) (Close_takes E))"
  by (auto simp add: Sync_atomic_def Let_def split: option.splits if_splits)

section \<open>Sync\<close>

text \<open>
  C4. A first \<open>Sync\<close> stores the closed flag before it calls the client's \<^verbatim>\<open>Close\<close>; and
  after a \<open>Sync\<close> that returned nil, whatever calls follow, every write returns the closed
  error and 0 and the logger, its events included, stays as it is: no further post
  reaches the client.
\<close>

theorem Sync_closes_first:
  "(\<not> closed f \<longrightarrow>
      (\<exists>rest. events (snd (Sync_atomic E f)) = events f @ StoreClosed # CloseCalled # rest) \<and>
      (\<exists>rest. events (snd (Sync_mutex E f)) = events f @ StoreClosed # CloseCalled # rest)) \<and>
   (fst (Sync_atomic E f) = None \<longrightarrow>
      run_atomic E cs (snd (Sync_atomic E f)) = (map closed_answer cs, snd (Sync_atomic E f))) \<and>
   (fst (Sync_mutex E f) = Some None \<longrightarrow>
      run_mutex E cs (snd (Sync_mutex E f)) = (map closed_answer cs, snd (Sync_mutex E f)))"
proof (intro conjI impI)
  assume "\<not> closed f"
  from events_Sync_atomic_open [OF this, of E]
  show "\<exists>rest. events (snd (Sync_atomic E f)) = events f @ StoreClosed # CloseCalled # rest"
    by auto
next
  assume "\<not> closed f"
  from events_Sync_mutex_open [OF this, of E]
  show "\<exists>rest. events (snd (Sync_mutex E f)) = events f @ StoreClosed # CloseCalled # rest"
    by auto
next
  show "run_atomic E cs (snd (Sync_atomic E f)) = (map closed_answer cs, snd (Sync_atomic E f))"
    by (rule run_atomic_closed) (rule closed_after_Sync_atomic)
next
  show "run_mutex E cs (snd (Sync_mutex E f)) = (map closed_answer cs, snd (Sync_mutex E f))"
    by (rule run_mutex_closed) (rule closed_after_Sync_mutex)
qed

theorem Sync_closes_first_witness:
  "events (snd (Sync_atomic (sample_env (Some 1000)) open_logger)) =
     [StoreClosed, CloseCalled, CloseReturned] \<and>
   events (snd (Sync_mutex (sample_env (Some 1000)) open_logger)) =
     [StoreClosed, CloseCalled, CloseReturned] \<and>
   fst (run_atomic (sample_env (Some 1000))
          [CallWrite 8 ''{\"message\":\"hi\"}'', CallSync, CallWrite 9 ''{}'']
          (snd (Sync_atomic (sample_env (Some 1000)) open_logger))) =
     [Wrote 0 (Some ErrLoggerClosed), Synced None, Wrote 0 (Some ErrLoggerClosed)] \<and>
   fst (run_mutex (sample_env (Some 1000))
          [CallWrite 8 ''{\"message\":\"hi\"}'', CallSync, CallWrite 9 ''{}'']
          (snd (Sync_mutex (sample_env (Some 1000)) open_logger))) =
     [Wrote 0 (Some ErrLoggerClosed), Synced None, Wrote 0 (Some ErrLoggerClosed)]"
proof -
  let ?E = "sample_env (Some 1000)"
  have o: "\<not> closed open_logger" by (simp add: open_logger_def)
  have a: "Sync_atomic ?E open_logger =
      (None, open_logger\<lparr>closed := True, events := [StoreClosed, CloseCalled, CloseReturned]\<rparr>)"
    by (simp add: Sync_atomic_def sample_env_def open_logger_def)
  have m: "Sync_mutex ?E open_logger =
      (Some None, open_logger\<lparr>closed := True, events := [StoreClosed, CloseCalled, CloseReturned]\<rparr>)"
    by (simp add: Sync_mutex_def sample_env_def open_logger_def)
  show ?thesis
    using Sync_closes_first [where f = open_logger and E = ?E
        and cs = "[CallWrite 8 ''{\"message\":\"hi\"}'', CallSync, CallWrite 9 ''{}'']"] o a m
    by simp
qed

text \<open>
  C5. The first \<open>Sync\<close> of an open logger calls the client's \<^verbatim>\<open>Close\<close> once; any number
  of further \<open>Sync\<close> calls each return nil and leave the logger, its events included, as
  it is. (In the second file the further calls follow a first call that has returned.)
\<close>

theorem Sync_idempotent:
  "\<not> closed f \<longrightarrow>
     length (filter (\<lambda>ev. ev = CloseCalled) (events (snd (Sync_atomic E f)))) =
       Suc (length (filter (\<lambda>ev. ev = CloseCalled) (events f))) \<and>
     run_atomic E (replicate n CallSync) (snd (Sync_atomic E f)) =
       (replicate n (Synced None), snd (Sync_atomic E f)) \<and>
     length (filter (\<lambda>ev. ev = CloseCalled) (events (snd (Sync_mutex E f)))) =
       Suc (length (filter (\<lambda>ev. ev = CloseCalled) (events f))) \<and>
     (fst (Sync_mutex E f) \<noteq> None \<longrightarrow>
        run_mutex E (replicate n CallSync) (snd (Sync_mutex E f)) =
          (replicate n (Synced None), snd (Sync_mutex E f)))"
proof
  assume opn: "\<not> closed f"
  have "length (filter (\<lambda>ev. ev = CloseCalled) (events (snd (Sync_atomic E f)))) =
      Suc (length (filter (\<lambda>ev. ev = CloseCalled) (events f)))"
    using events_Sync_atomic_open [OF opn, of E] by auto
  moreover have "length (filter (\<lambda>ev. ev = CloseCalled) (events (snd (Sync_mutex E f)))) =
      Suc (length (filter (\<lambda>ev. ev = CloseCalled) (events f)))"
    using events_Sync_mutex_open [OF opn, of E] by auto
  moreover have "run_atomic E (replicate n CallSync) (snd (Sync_atomic E f)) =
      (replicate n (Synced None), snd (Sync_atomic E f))"
    using run_atomic_closed [OF closed_after_Sync_atomic, of E "replicate n CallSync" E f]
    by simp
  moreover have "run_mutex E (replicate n CallSync) (snd (Sync_mutex E f)) =
      (replicate n (Synced None), snd (Sync_mutex E f))"
    using run_mutex_closed [OF closed_after_Sync_mutex, of E "replicate n CallSync" E f]
    by simp
  ultimately show "length (filter (\<lambda>ev. ev = CloseCalled) (events (snd (Sync_atomic E f)))) =
       Suc (length (filter (\<lambda>ev. ev = CloseCalled) (events f))) \<and>
     run_atomic E (replicate n CallSync) (snd (Sync_atomic E f)) =
       (replicate n (Synced None), snd (Sync_atomic E f)) \<and>
     length (filter (\<lambda>ev. ev = CloseCalled) (events (snd (Sync_mutex E f)))) =
       Suc (length (filter (\<lambda>ev. ev = CloseCalled) (events f))) \<and>
     (fst (Sync_mutex E f) \<noteq> None \<longrightarrow>
        run_mutex E (replicate n CallSync) (snd (Sync_mutex E f)) =
          (replicate n (Synced None), snd (Sync_mutex E f)))"
    by simp
qed

theorem Sync_idempotent_witness:
  "length (filter (\<lambda>ev. ev = CloseCalled)
     (events (snd (Sync_atomic (sample_env None) open_logger)))) = 1 \<and>
   fst (run_atomic (sample_env None) [CallSync, CallSync, CallSync]
     (snd (Sync_atomic (sample_env None) open_logger))) = [Synced None, Synced None, Synced None] \<and>
   length (filter (\<lambda>ev. ev = CloseCalled)
     (events (snd (Sync_mutex (sample_env (Some 7)) open_logger)))) = 1 \<and>
   fst (run_mutex (sample_env (Some 7)) [CallSync, CallSync, CallSync]
     (snd (Sync_mutex (sample_env (Some 7)) open_logger))) = [Synced None, Synced None, Synced None]"
proof -
  have o: "\<not> closed open_logger" and e: "events open_logger = []"
    by (simp_all add: open_logger_def)
  have r: "replicate 3 CallSync = [CallSync, CallSync, CallSync]"
    "replicate 3 (Synced None) = [Synced None, Synced None, Synced None]"
    by (simp_all add: numeral_3_eq_3)
  have m: "fst (Sync_mutex (sample_env (Some 7)) open_logger) = Some None"
    by (simp add: Sync_mutex_def sample_env_def open_logger_def)
  show ?thesis
    using Sync_idempotent [where f = open_logger and E = "sample_env None" and n = 3]
      Sync_idempotent [where f = open_logger and E = "sample_env (Some 7)" and n = 3] o e r m
    by simp
qed

text \<open>
  C10. When \<open>Sync\<close> of the first file returns the flush-timeout error, the closed flag is
  set all the same: whatever calls follow, every sync returns nil and every write the
  closed error, and nothing more reaches the client. Yet the client's \<^verbatim>\<open>Close\<close> has not
  returned at that point (it is still running in the goroutine left behind), and when
  \<^verbatim>\<open>Close\<close> never returns, no amount of time changes that.
\<close>

theorem Sync_atomic_timeout_still_closed:
  "fst (Sync_atomic E f) = Some (New ''fluent log flush timed out'') \<longrightarrow>
     closed (snd (Sync_atomic E f)) \<and>
     run_atomic E cs (snd (Sync_atomic E f)) = (map closed_answer cs, snd (Sync_atomic E f)) \<and>
     events (snd (Sync_atomic E f)) = events f @ [StoreClosed, CloseCalled] \<and>
     closing (snd (Sync_atomic E f)) \<noteq> None \<and>
     (Close_takes E = None \<longrightarrow> elapse dt (snd (Sync_atomic E f)) = snd (Sync_atomic E f))"
proof
  assume t: "fst (Sync_atomic E f) = Some (New ''fluent log flush timed out'')"
  note shape = Sync_atomic_timed_out [OF t]
  have c: "closed (snd (Sync_atomic E f))"
    by (rule closed_after_Sync_atomic)
  have "Close_takes E = None \<longrightarrow> elapse dt (snd (Sync_atomic E f)) = snd (Sync_atomic E f)"
    using shape by (simp add: elapse_def)
  with c shape run_atomic_closed [OF c, of E cs]
  show "closed (snd (Sync_atomic E f)) \<and>
     run_atomic E cs (snd (Sync_atomic E f)) = (map closed_answer cs, snd (Sync_atomic E f)) \<and>
     events (snd (Sync_atomic E f)) = events f @ [StoreClosed, CloseCalled] \<and>
     closing (snd (Sync_atomic E f)) \<noteq> None \<and>
     (Close_takes E = None \<longrightarrow> elapse dt (snd (Sync_atomic E f)) = snd (Sync_atomic E f))"
    by simp
qed

theorem Sync_atomic_timeout_still_closed_witness:
  "fst (Sync_atomic (sample_env None) open_logger) = Some (New ''fluent log flush timed out'') \<and>
   closed (snd (Sync_atomic (sample_env None) open_logger)) \<and>
   fst (run_atomic (sample_env None) [CallSync, CallWrite 9 ''{\"message\":\"hi\"}'']
          (snd (Sync_atomic (sample_env None) open_logger))) =
     [Synced None, Wrote 0 (Some ErrLoggerClosed)] \<and>
   events (snd (Sync_atomic (sample_env None) open_logger)) = [StoreClosed, CloseCalled] \<and>
   elapse 3600000000000 (snd (Sync_atomic (sample_env None) open_logger)) =
     snd (Sync_atomic (sample_env None) open_logger)"
proof -
  have t: "fst (Sync_atomic (sample_env None) open_logger) =
      Some (New ''fluent log flush timed out'')"
    by (simp add: Sync_atomic_def sample_env_def open_logger_def)
  have n: "Close_takes (sample_env None) = None" and e: "events open_logger = []"
    by (simp_all add: sample_env_def open_logger_def)
  show ?thesis
    using Sync_atomic_timeout_still_closed [where E = "sample_env None" and f = open_logger
        and cs = "[CallSync, CallWrite 9 ''{\"message\":\"hi\"}'']" and dt = 3600000000000] t n e
    by simp
qed

text \<open>
  The timer of the first file: a first \<open>Sync\<close> returns nil when the client's \<^verbatim>\<open>Close\<close> needs less
  than the timeout, and the flush-timeout error when it needs more or never returns; then
  the goroutine is left running, and \<^verbatim>\<open>Close\<close> returns in it once its remaining time
  has passed.
\<close>

lemma Sync_atomic_races_timer:
  "\<not> closed f \<Longrightarrow>
   (Close_takes E = Some d \<and> d < nat (timeout f) \<longrightarrow> fst (Sync_atomic E f) = None) \<and>
   (Close_takes E = None \<longrightarrow>
      fst (Sync_atomic E f) = Some (New ''fluent log flush timed out'') \<and>
      closing (snd (Sync_atomic E f)) = Some None) \<and>
   (Close_takes E = Some d \<and> nat (timeout f) < d \<longrightarrow>
      fst (Sync_atomic E f) = Some (New ''fluent log flush timed out'') \<and>
      closing (snd (Sync_atomic E f)) = Some (Some (d - nat (timeout f))) \<and>
      elapse (d - nat (timeout f)) (snd (Sync_atomic E f)) =
        (snd (Sync_atomic E f))
          \<lparr>events := events f @ [StoreClosed, CloseCalled, CloseReturned], closing := None\<rparr>)"
  by (simp add: Sync_atomic_def elapse_def Let_def)

text \<open>
  C3. \<open>Sync\<close> of the second file has no timer. With a timeout of 50 ms and a client whose
  \<^verbatim>\<open>Close\<close> needs one second, it returns nil, not the flush-timeout error; with a client
  whose \<^verbatim>\<open>Close\<close> never returns, it never returns, where the first file's \<open>Sync\<close> reports
  the timeout.
\<close>

theorem Sync_mutex_has_no_timer:
  "timeout open_logger = 50000000 \<and>
   fst (Sync_mutex (sample_env (Some 1000000000)) open_logger) = Some None \<and>
   fst (Sync_mutex (sample_env None) open_logger) = None \<and>
   fst (Sync_atomic (sample_env (Some 1000000000)) open_logger) =
     Some (New ''fluent log flush timed out'') \<and>
   fst (Sync_atomic (sample_env None) open_logger) = Some (New ''fluent log flush timed out'')"
  by (simp add: Sync_mutex_def Sync_atomic_def sample_env_def open_logger_def)

section \<open>Close\<close>

lemma SugaredLogger_Close_done:
  "closeOnce l \<Longrightarrow> SugaredLogger_Close E zs (Some l) = (None, Some l)"
  by (simp add: SugaredLogger_Close_def)

lemma WrappedLogger_Close_done:
  "closeOnce l \<Longrightarrow> WrappedLogger_Close E zs (Some l) = (Some None, Some l)"
  by (simp add: WrappedLogger_Close_def)

lemma SugaredLogger_Close_first:
  "\<not> closeOnce l \<Longrightarrow> \<exists>l'. snd (SugaredLogger_Close E zs (Some l)) = Some l' \<and> closeOnce l'"
  by (simp add: SugaredLogger_Close_def Let_def split: prod.split)

lemma WrappedLogger_Close_first:
  "fst (WrappedLogger_Close E zs (Some l)) = Some r \<Longrightarrow>
   \<exists>l'. snd (WrappedLogger_Close E zs (Some l)) = Some l' \<and> closeOnce l'"
  by (auto simp add: WrappedLogger_Close_def split: prod.splits option.splits if_splits)

lemma SugaredLogger_Close_times_done:
  "closeOnce l \<Longrightarrow> SugaredLogger_Close_times E zs n (Some l) = (replicate n None, Some l)"
  by (induction n) (simp_all add: SugaredLogger_Close_done)

lemma WrappedLogger_Close_times_done:
  "closeOnce l \<Longrightarrow> WrappedLogger_Close_times E zs n (Some l) = (replicate n (Some None), Some l)"
  by (induction n) (simp_all add: WrappedLogger_Close_done)

text \<open>
  As the constructors build the core on the FluentLogger itself, zap's sync is the
  FluentLogger's \<open>Sync\<close>. Then the second step of \<^verbatim>\<open>Close\<close> finds the flag set and returns
  nil, and \<^verbatim>\<open>Close\<close> returns what that one \<open>Sync\<close> returned, wrapped in the first file.
\<close>

lemma SugaredLogger_Close_on_own_syncer:
  "\<not> closeOnce l \<Longrightarrow>
   SugaredLogger_Close E (Sync_atomic E) (Some l) =
     (map_option (Errorf ''zap sync failed'') (fst (Sync_atomic E (fluent l))),
      Some (l\<lparr>fluent := snd (Sync_atomic E (fluent l)), closeOnce := True\<rparr>))"
proof -
  assume o: "\<not> closeOnce l"
  obtain e f1 where s: "Sync_atomic E (fluent l) = (e, f1)"
    by (cases "Sync_atomic E (fluent l)")
  then have "closed f1"
    using closed_after_Sync_atomic [of E "fluent l"] by simp
  then have "Sync_atomic E f1 = (None, f1)"
    by (rule Sync_atomic_closed)
  with s o show ?thesis
    by (cases e) (simp_all add: SugaredLogger_Close_def)
qed

lemma WrappedLogger_Close_on_own_syncer:
  "\<not> closeOnce l \<Longrightarrow> fst (Sync_mutex E (fluent l)) = Some r \<Longrightarrow>
   WrappedLogger_Close E (Sync_mutex E) (Some l) =
     (Some r, Some (l\<lparr>fluent := snd (Sync_mutex E (fluent l)), closeOnce := True\<rparr>))"
proof -
  assume o: "\<not> closeOnce l" and r: "fst (Sync_mutex E (fluent l)) = Some r"
  obtain f1 where s: "Sync_mutex E (fluent l) = (Some r, f1)"
    using r by (cases "Sync_mutex E (fluent l)") simp
  then have "closed f1"
    using closed_after_Sync_mutex [of E "fluent l"] by simp
  then have "Sync_mutex E f1 = (Some None, f1)"
    by (rule Sync_mutex_closed)
  with s o show ?thesis
    by (simp add: WrappedLogger_Close_def)
qed



text \<open>
  C6, as the code has it. Of \<open>n + 1\<close> calls of \<^verbatim>\<open>Close\<close> on a fresh handle the first runs
  the two steps and returns their result; each later call returns nil and leaves the
  handle as the first call left it, so nothing is flushed or closed again. Built on its
  own FluentLogger, still open, the handle sees the client's \<^verbatim>\<open>Close\<close> called exactly once
  more. (In the second file this is for a first call that returns; one that never
  returns has no successor.)
\<close>

theorem Close_runs_once:
  "(\<not> closeOnce l \<longrightarrow>
      SugaredLogger_Close_times E zs (Suc n) (Some l) =
        (fst (SugaredLogger_Close E zs (Some l)) # replicate n None,
         snd (SugaredLogger_Close E zs (Some l)))) \<and>
   (\<not> closeOnce l \<and> fst (WrappedLogger_Close E zm (Some l)) = Some r \<longrightarrow>
      WrappedLogger_Close_times E zm (Suc n) (Some l) =
        (Some r # replicate n (Some None), snd (WrappedLogger_Close E zm (Some l)))) \<and>
   (\<not> closeOnce l \<and> \<not> closed (fluent l) \<longrightarrow>
      (\<exists>l'. snd (SugaredLogger_Close_times E (Sync_atomic E) (Suc n) (Some l)) = Some l' \<and>
            close_calls (fluent l') = Suc (close_calls (fluent l)))) \<and>
   (\<not> closeOnce l \<and> \<not> closed (fluent l) \<and> fst (Sync_mutex E (fluent l)) = Some r' \<longrightarrow>
      (\<exists>l'. snd (WrappedLogger_Close_times E (Sync_mutex E) (Suc n) (Some l)) = Some l' \<and>
            close_calls (fluent l') = Suc (close_calls (fluent l))))"
proof (intro conjI impI)
  assume o: "\<not> closeOnce l"
  from SugaredLogger_Close_first [OF o, of E zs]
  obtain l' where l': "snd (SugaredLogger_Close E zs (Some l)) = Some l'" "closeOnce l'"
    by blast
  obtain e where "SugaredLogger_Close E zs (Some l) = (e, Some l')"
    using l' by (cases "SugaredLogger_Close E zs (Some l)") simp
  with l' show "SugaredLogger_Close_times E zs (Suc n) (Some l) =
      (fst (SugaredLogger_Close E zs (Some l)) # replicate n None,
       snd (SugaredLogger_Close E zs (Some l)))"
    by (simp add: SugaredLogger_Close_times_done)
next
  assume a: "\<not> closeOnce l \<and> fst (WrappedLogger_Close E zm (Some l)) = Some r"
  then have r: "fst (WrappedLogger_Close E zm (Some l)) = Some r" by simp
  from WrappedLogger_Close_first [OF r]
  obtain l' where l': "snd (WrappedLogger_Close E zm (Some l)) = Some l'" "closeOnce l'"
    by blast
  have "WrappedLogger_Close E zm (Some l) = (Some r, Some l')"
    using l' r by (cases "WrappedLogger_Close E zm (Some l)") simp
  with l' show "WrappedLogger_Close_times E zm (Suc n) (Some l) =
      (Some r # replicate n (Some None), snd (WrappedLogger_Close E zm (Some l)))"
    by (simp add: WrappedLogger_Close_times_done)
next
  assume a: "\<not> closeOnce l \<and> \<not> closed (fluent l)"
  then have o: "\<not> closeOnce l" and opn: "\<not> closed (fluent l)" by simp_all
  let ?l' = "l\<lparr>fluent := snd (Sync_atomic E (fluent l)), closeOnce := True\<rparr>"
  have "snd (SugaredLogger_Close_times E (Sync_atomic E) (Suc n) (Some l)) = Some ?l'"
    by (simp add: SugaredLogger_Close_on_own_syncer [OF o] SugaredLogger_Close_times_done)
  moreover have "close_calls (fluent ?l') = Suc (close_calls (fluent l))"
    using events_Sync_atomic_open [OF opn, of E] by (auto simp add: close_calls_def)
  ultimately show "\<exists>l'. snd (SugaredLogger_Close_times E (Sync_atomic E) (Suc n) (Some l)) = Some l' \<and>
      close_calls (fluent l') = Suc (close_calls (fluent l))"
    by blast
next
  assume a: "\<not> closeOnce l \<and> \<not> closed (fluent l) \<and> fst (Sync_mutex E (fluent l)) = Some r'"
  then have o: "\<not> closeOnce l" and opn: "\<not> closed (fluent l)"
    and r: "fst (Sync_mutex E (fluent l)) = Some r'"
    by simp_all
  let ?l' = "l\<lparr>fluent := snd (Sync_mutex E (fluent l)), closeOnce := True\<rparr>"
  have "snd (WrappedLogger_Close_times E (Sync_mutex E) (Suc n) (Some l)) = Some ?l'"
    by (simp add: WrappedLogger_Close_on_own_syncer [OF o r] WrappedLogger_Close_times_done)
  moreover have "close_calls (fluent ?l') = Suc (close_calls (fluent l))"
    using events_Sync_mutex_open [OF opn, of E] by (auto simp add: close_calls_def)
  ultimately show "\<exists>l'. snd (WrappedLogger_Close_times E (Sync_mutex E) (Suc n) (Some l)) = Some l' \<and>
      close_calls (fluent l') = Suc (close_calls (fluent l))"
    by blast
qed

theorem Close_runs_once_witness:
  "fst (SugaredLogger_Close_times (sample_env None) (Sync_atomic (sample_env None)) (Suc 2)
          (Some sample_handle)) =
     [Some (Errorf ''zap sync failed'' (New ''fluent log flush timed out'')), None, None] \<and>
   fst (WrappedLogger_Close_times (sample_env (Some 5)) (Sync_mutex (sample_env (Some 5))) (Suc 2)
          (Some sample_handle)) =
     [Some None, Some None, Some None] \<and>
   (\<exists>l'. snd (SugaredLogger_Close_times (sample_env None) (Sync_atomic (sample_env None)) (Suc 2)
               (Some sample_handle)) = Some l' \<and>
         close_calls (fluent l') = 1)"
proof -
  let ?E = "sample_env None" and ?F = "sample_env (Some 5)"
  have o: "\<not> closeOnce sample_handle" and opn: "\<not> closed (fluent sample_handle)"
    and c0: "close_calls (fluent sample_handle) = 0"
    by (simp_all add: sample_handle_def open_logger_def close_calls_def)
  have a: "fst (SugaredLogger_Close ?E (Sync_atomic ?E) (Some sample_handle)) =
      Some (Errorf ''zap sync failed'' (New ''fluent log flush timed out''))"
    by (simp add: SugaredLogger_Close_def Sync_atomic_def sample_handle_def sample_env_def
        open_logger_def)
  have m: "fst (WrappedLogger_Close ?F (Sync_mutex ?F) (Some sample_handle)) = Some None"
    by (simp add: WrappedLogger_Close_def Sync_mutex_def sample_handle_def sample_env_def
        open_logger_def)
  have r: "replicate 2 x = [x, x]" for x :: "'a"
    by (simp add: numeral_2_eq_2)
  note A = Close_runs_once [where l = sample_handle and E = ?E and zs = "Sync_atomic ?E"
      and zm = "Sync_mutex ?F" and n = 2 and r = None]
  note B = Close_runs_once [where l = sample_handle and E = ?F and zs = "Sync_atomic ?F"
      and zm = "Sync_mutex ?F" and n = 2 and r = None]
  from A o have "SugaredLogger_Close_times ?E (Sync_atomic ?E) (Suc 2) (Some sample_handle) =
      (fst (SugaredLogger_Close ?E (Sync_atomic ?E) (Some sample_handle)) # replicate 2 None,
       snd (SugaredLogger_Close ?E (Sync_atomic ?E) (Some sample_handle)))"
    by blast
  with a have 1: "fst (SugaredLogger_Close_times ?E (Sync_atomic ?E) (Suc 2) (Some sample_handle)) =
      [Some (Errorf ''zap sync failed'' (New ''fluent log flush timed out'')), None, None]"
    by (simp add: r)
  from B o m have "WrappedLogger_Close_times ?F (Sync_mutex ?F) (Suc 2) (Some sample_handle) =
      (Some None # replicate 2 (Some None),
       snd (WrappedLogger_Close ?F (Sync_mutex ?F) (Some sample_handle)))"
    by blast
  then have 2: "fst (WrappedLogger_Close_times ?F (Sync_mutex ?F) (Suc 2) (Some sample_handle)) =
      [Some None, Some None, Some None]"
    by (simp add: r)
  from A o opn have "\<exists>l'. snd (SugaredLogger_Close_times ?E (Sync_atomic ?E) (Suc 2)
        (Some sample_handle)) = Some l' \<and>
      close_calls (fluent l') = Suc (close_calls (fluent sample_handle))"
    by blast
  with c0 have 3: "\<exists>l'. snd (SugaredLogger_Close_times ?E (Sync_atomic ?E) (Suc 2)
        (Some sample_handle)) = Some l' \<and> close_calls (fluent l') = 1"
    by simp
  from 1 2 3 show ?thesis
    by (intro conjI)
qed

text \<open>
  C6 as it is stated fails where the one real close fails: the first call returns its
  error and the second returns nil. Here the handle is built on its own FluentLogger;
  in the first file the client's \<^verbatim>\<open>Close\<close> hangs, in the second it returns an error.
\<close>

theorem Close_runs_once_counterexample:
  "fst (SugaredLogger_Close_times (sample_env None) (Sync_atomic (sample_env None)) 2
          (Some sample_handle)) =
     [Some (Errorf ''zap sync failed'' (New ''fluent log flush timed out'')), None] \<and>
   fst (WrappedLogger_Close_times
          ((sample_env (Some 5))\<lparr>Close_result := Some (Lib ''broken pipe'')\<rparr>)
          (Sync_mutex ((sample_env (Some 5))\<lparr>Close_result := Some (Lib ''broken pipe'')\<rparr>)) 2
          (Some sample_handle)) =
     [Some (Some (Lib ''broken pipe'')), Some None]"
  by (simp add: numeral_2_eq_2 SugaredLogger_Close_def WrappedLogger_Close_def Sync_atomic_def
      Sync_mutex_def sample_handle_def sample_env_def open_logger_def)

section \<open>Level parsing\<close>

lemma toUpper_byte_eq_iff:
  assumes u: "65 \<le> (of_char u :: nat)" "(of_char u :: nat) \<le> 90"
  shows "toUpper_byte c = u \<longleftrightarrow> sameLetter c u"
proof (cases "97 \<le> (of_char c :: nat) \<and> (of_char c :: nat) \<le> 122")
  case True
  then have "toUpper_byte c = char_of (of_char c - 32 :: nat)"
    by (simp add: toUpper_byte_def)
  moreover have "(of_char c - 32 :: nat) mod 256 = of_char c - 32"
  proof (rule mod_less)
    show "(of_char c :: nat) - 32 < 256"
      using True by arith
  qed
  ultimately have "toUpper_byte c = u \<longleftrightarrow> (of_char c :: nat) - 32 = of_char u"
    by (simp add: char_of_eq_iff take_bit_eq_mod)
  moreover have "c \<noteq> u"
    using True u by auto
  ultimately show ?thesis
    using True by (auto simp add: sameLetter_def)
next
  case False
  then have "toUpper_byte c = c"
    by (auto simp add: toUpper_byte_def)
  moreover have "(of_char c :: nat) \<noteq> of_char u + 32"
    using False u by arith
  ultimately show ?thesis
    by (auto simp add: sameLetter_def)
qed

text \<open>On ASCII input \<open>strings_ToUpper\<close> works byte by byte, as Go's fast path does.\<close>

lemma strings_ToUpper_ASCII: "isASCII s \<Longrightarrow> strings_ToUpper s = map toUpper_byte s"
  by (induction s rule: strings_ToUpper.induct) (auto simp add: isASCII_def)

lemma map_toUpper_byte_eq_iff:
  "map toUpper_byte s = us \<longleftrightarrow> list_all2 (\<lambda>c u. toUpper_byte c = u) s us"
  by (induction s arbitrary: us) (auto simp add: list_all2_Cons1)

text \<open>
  Among ASCII strings the ones whose upper-casing is "WARNING" are the 128 spellings of
  "warning" in upper and lower case. (Outside ASCII there are the spellings with the
  dotless i.)
\<close>

lemma strings_ToUpper_WARNING:
  "isASCII s \<Longrightarrow> strings_ToUpper s = ''WARNING'' \<longleftrightarrow> list_all2 sameLetter s ''WARNING''"
  by (simp add: strings_ToUpper_ASCII map_toUpper_byte_eq_iff list_all2_Cons2
      toUpper_byte_eq_iff)

text \<open>
  C8, as the code has it. Level parsing resolves a name that the level decoder accepts
  to the level it decodes, so with the decoder of the specification the canonical names,
  case-sensitively, to their levels. A string that the decoder rejects never fails
  construction: it resolves to the warn level when its upper-casing is "WARNING",
  whatever its own case, and to the default debug level otherwise.
\<close>

theorem parseLogLevel_resolves:
  "(UnmarshalText lvl = Inr l \<longrightarrow> parseLogLevel UnmarshalText lvl = l) \<and>
   (UnmarshalText lvl = Inl e \<and> strings_ToUpper lvl = ''WARNING'' \<longrightarrow>
      parseLogLevel UnmarshalText lvl = WarnLevel) \<and>
   (UnmarshalText lvl = Inl e \<and> strings_ToUpper lvl \<noteq> ''WARNING'' \<longrightarrow>
      parseLogLevel UnmarshalText lvl = DebugLevel) \<and>
   map (parseLogLevel canonical_UnmarshalText)
     [''debug'', ''info'', ''warn'', ''error'', ''dpanic'', ''panic'', ''fatal''] =
     [DebugLevel, InfoLevel, WarnLevel, ErrorLevel, DPanicLevel, PanicLevel, FatalLevel]"
proof (intro conjI impI)
  assume "UnmarshalText lvl = Inr l"
  then show "parseLogLevel UnmarshalText lvl = l"
    by (simp add: parseLogLevel_def)
next
  assume "UnmarshalText lvl = Inl e \<and> strings_ToUpper lvl = ''WARNING''"
  then show "parseLogLevel UnmarshalText lvl = WarnLevel"
    by (simp add: parseLogLevel_def compatibleLevelWarningUpperCase_def)
next
  assume "UnmarshalText lvl = Inl e \<and> strings_ToUpper lvl \<noteq> ''WARNING''"
  then show "parseLogLevel UnmarshalText lvl = DebugLevel"
    by (simp add: parseLogLevel_def compatibleLevelWarningUpperCase_def defaultLogLevel_def)
next
  show "map (parseLogLevel canonical_UnmarshalText)
     [''debug'', ''info'', ''warn'', ''error'', ''dpanic'', ''panic'', ''fatal''] =
     [DebugLevel, InfoLevel, WarnLevel, ErrorLevel, DPanicLevel, PanicLevel, FatalLevel]"
    by (simp add: parseLogLevel_def canonical_UnmarshalText_def)
qed

theorem parseLogLevel_resolves_witness:
  "parseLogLevel canonical_UnmarshalText ''error'' = ErrorLevel \<and>
   parseLogLevel canonical_UnmarshalText ''WARNING'' = WarnLevel \<and>
   parseLogLevel canonical_UnmarshalText ''Warning'' = WarnLevel \<and>
   parseLogLevel canonical_UnmarshalText
     [CHR ''w'', CHR ''a'', CHR ''r'', CHR ''n'', CHR 0xC4, CHR 0xB1, CHR ''n'', CHR ''g''] =
     WarnLevel \<and>
   parseLogLevel canonical_UnmarshalText ''bogus'' = DebugLevel"
proof -
  let ?e = "Lib ''unrecognized level''"
  let ?dotless = "[CHR ''w'', CHR ''a'', CHR ''r'', CHR ''n'', CHR 0xC4, CHR 0xB1, CHR ''n'', CHR ''g'']"
  have d: "canonical_UnmarshalText ''error'' = Inr ErrorLevel"
    "canonical_UnmarshalText ''WARNING'' = Inl ?e"
    "canonical_UnmarshalText ''Warning'' = Inl ?e"
    "canonical_UnmarshalText ?dotless = Inl ?e"
    "canonical_UnmarshalText ''bogus'' = Inl ?e"
    by (simp_all add: canonical_UnmarshalText_def)
  have w: "strings_ToUpper ''WARNING'' = ''WARNING''"
    "strings_ToUpper ''Warning'' = ''WARNING''"
    "strings_ToUpper ?dotless = ''WARNING''"
    "strings_ToUpper ''bogus'' \<noteq> ''WARNING''"
    by code_simp+
  show ?thesis
    using parseLogLevel_resolves [where UnmarshalText = canonical_UnmarshalText
        and lvl = "''error''" and l = ErrorLevel]
      parseLogLevel_resolves [where UnmarshalText = canonical_UnmarshalText
        and lvl = "''WARNING''" and e = ?e]
      parseLogLevel_resolves [where UnmarshalText = canonical_UnmarshalText
        and lvl = "''Warning''" and e = ?e]
      parseLogLevel_resolves [where UnmarshalText = canonical_UnmarshalText
        and lvl = ?dotless and e = ?e]
      parseLogLevel_resolves [where UnmarshalText = canonical_UnmarshalText
        and lvl = "''bogus''" and e = ?e]
      d w
    by simp
qed

text \<open>
  C8 as it is stated fails: "WARNING" is not the only unrecognized string that resolves
  to the warn level. The lower-case "warning" is no canonical name, differs from
  "WARNING", and resolves to warn, not to the default.
\<close>

theorem parseLogLevel_resolves_counterexample:
  "canonical_UnmarshalText ''warning'' = Inl (Lib ''unrecognized level'') \<and>
   ''warning'' \<noteq> ''WARNING'' \<and>
   parseLogLevel canonical_UnmarshalText ''warning'' = WarnLevel \<and>
   WarnLevel \<noteq> defaultLogLevel"
proof -
  have "strings_ToUpper ''warning'' = ''WARNING''"
    by code_simp
  then show ?thesis
    by (simp add: parseLogLevel_def canonical_UnmarshalText_def
        compatibleLevelWarningUpperCase_def defaultLogLevel_def)
qed

section \<open>Construction\<close>

text \<open>
  C9. A logger that either constructor returns has the tag \<^verbatim>\<open>"app.logs"\<close> when the
  configuration left the tag empty and the configured tag otherwise, and a timeout of
  five seconds when the configuration left the timeout (in the first file, the fluent
  configuration's) at zero and the configured timeout otherwise; so its tag is never
  empty and its timeout never zero.
\<close>

theorem constructors_fill_defaults:
  "(NewSugaredLogger fluent_New UnmarshalText cfg = Inr l \<longrightarrow>
      tag (fluent l) =
        (if SugaredLoggerConfig.Tag cfg = [] then ''app.logs'' else SugaredLoggerConfig.Tag cfg) \<and>
      timeout (fluent l) =
        (if fluent_Config.Timeout (FluentConfig cfg) = 0 then 5000000000
         else fluent_Config.Timeout (FluentConfig cfg)) \<and>
      tag (fluent l) \<noteq> [] \<and> timeout (fluent l) \<noteq> 0) \<and>
   (NewWrappedLogger fluent_New cfg' = Inr l' \<longrightarrow>
      tag (fluent l') =
        (if FluentConfig.Tag cfg' = [] then ''app.logs'' else FluentConfig.Tag cfg') \<and>
      timeout (fluent l') =
        (if FluentConfig.Timeout cfg' = 0 then 5000000000 else FluentConfig.Timeout cfg') \<and>
      tag (fluent l') \<noteq> [] \<and> timeout (fluent l') \<noteq> 0)"
proof (intro conjI impI)
  assume a: "NewSugaredLogger fluent_New UnmarshalText cfg = Inr l"
  then have t: "tag (fluent l) =
      (if SugaredLoggerConfig.Tag cfg = [] then ''app.logs'' else SugaredLoggerConfig.Tag cfg)"
    by (auto simp add: NewSugaredLogger_def Let_def defaultFluentTag_def
        split: option.splits if_splits)
  from a have d: "timeout (fluent l) =
      (if fluent_Config.Timeout (FluentConfig cfg) = 0 then 5000000000
       else fluent_Config.Timeout (FluentConfig cfg))"
    by (auto simp add: NewSugaredLogger_def Let_def defaultShutdownTimeout_def
        split: option.splits if_splits)
  from t show "tag (fluent l) =
      (if SugaredLoggerConfig.Tag cfg = [] then ''app.logs'' else SugaredLoggerConfig.Tag cfg)" .
  from d show "timeout (fluent l) =
      (if fluent_Config.Timeout (FluentConfig cfg) = 0 then 5000000000
       else fluent_Config.Timeout (FluentConfig cfg))" .
  from t show "tag (fluent l) \<noteq> []" by (simp split: if_splits)
  from d show "timeout (fluent l) \<noteq> 0" by (simp split: if_splits)
next
  assume a: "NewWrappedLogger fluent_New cfg' = Inr l'"
  then have t: "tag (fluent l') =
      (if FluentConfig.Tag cfg' = [] then ''app.logs'' else FluentConfig.Tag cfg')"
    by (auto simp add: NewWrappedLogger_def Let_def defaultFluentTag_def
        split: option.splits if_splits)
  from a have d: "timeout (fluent l') =
      (if FluentConfig.Timeout cfg' = 0 then 5000000000 else FluentConfig.Timeout cfg')"
    by (auto simp add: NewWrappedLogger_def Let_def defaultShutdownTimeout_def
        split: option.splits if_splits)
  from t show "tag (fluent l') =
      (if FluentConfig.Tag cfg' = [] then ''app.logs'' else FluentConfig.Tag cfg')" .
  from d show "timeout (fluent l') =
      (if FluentConfig.Timeout cfg' = 0 then 5000000000 else FluentConfig.Timeout cfg')" .
  from t show "tag (fluent l') \<noteq> []" by (simp split: if_splits)
  from d show "timeout (fluent l') \<noteq> 0" by (simp split: if_splits)
qed

lemma NewSugaredLogger_sample:
  "NewSugaredLogger sample_fluent_New canonical_UnmarshalText sample_SugaredLoggerConfig =
     Inr \<lparr>core_level = WarnLevel,
          fluent = \<lparr>tag = ''app.logs'', closed = False, timeout = 5000000000, events = [],
                    closing = None\<rparr>,
          closeOnce = False\<rparr>"
proof -
  have "strings_ToUpper ''WARNING'' = ''WARNING''"
    by code_simp
  then show ?thesis
    by (simp add: NewSugaredLogger_def sample_SugaredLoggerConfig_def sample_fluent_Config_def
        sample_fluent_New_def parseLogLevel_def canonical_UnmarshalText_def
        compatibleLevelWarningUpperCase_def defaultFluentTag_def defaultShutdownTimeout_def)
qed

lemma NewWrappedLogger_sample:
  "NewWrappedLogger sample_fluent_New sample_FluentConfig =
     Inr \<lparr>core_level = InfoLevel,
          fluent = \<lparr>tag = ''app.logs'', closed = False, timeout = 5000000000, events = [],
                    closing = None\<rparr>,
          closeOnce = False\<rparr>"
  by (simp add: NewWrappedLogger_def sample_FluentConfig_def sample_fluent_Config_def
      sample_fluent_New_def defaultFluentTag_def defaultShutdownTimeout_def)

theorem constructors_fill_defaults_witness:
  "(\<exists>l. NewSugaredLogger sample_fluent_New canonical_UnmarshalText sample_SugaredLoggerConfig =
          Inr l \<and> tag (fluent l) = ''app.logs'' \<and> timeout (fluent l) = 5000000000) \<and>
   (\<exists>l. NewWrappedLogger sample_fluent_New sample_FluentConfig = Inr l \<and>
        tag (fluent l) = ''app.logs'' \<and> timeout (fluent l) = 5000000000)"
proof -
  have c: "SugaredLoggerConfig.Tag sample_SugaredLoggerConfig = []"
    "fluent_Config.Timeout (FluentConfig sample_SugaredLoggerConfig) = 0"
    "FluentConfig.Tag sample_FluentConfig = []" "FluentConfig.Timeout sample_FluentConfig = 0"
    by (simp_all add: sample_SugaredLoggerConfig_def sample_FluentConfig_def
        sample_fluent_Config_def)
  let ?f = "\<lparr>tag = ''app.logs'', closed = False, timeout = 5000000000, events = [],
      closing = None\<rparr>"
  from constructors_fill_defaults [where fluent_New = sample_fluent_New
      and UnmarshalText = canonical_UnmarshalText and cfg = sample_SugaredLoggerConfig
      and cfg' = sample_FluentConfig
      and l = "\<lparr>core_level = WarnLevel, fluent = ?f, closeOnce = False\<rparr>"
      and l' = "\<lparr>core_level = InfoLevel, fluent = ?f, closeOnce = False\<rparr>"]
    NewSugaredLogger_sample NewWrappedLogger_sample c
  show ?thesis
    by simp
qed

section \<open>Leveled log calls\<close>

text \<open>
  C7. A log call whose level is below the level of the core leaves the handle as it
  is: nothing is encoded and the FluentLogger is not touched. The first constructor
  gives the core the level parsed from the configuration, the second the info level.
  With the core at the warn level, debug and info calls change nothing, and warn and
  error calls hand their encoded record to \<open>Write\<close>.
\<close>

theorem level_gate:
  "(level_value lvl < level_value (core_level l) \<longrightarrow>
      SugaredLogger_log E enc now lvl msg kvs l = l \<and>
      WrappedLogger_log E enc now lvl msg kvs l = l) \<and>
   (core_level l = WarnLevel \<longrightarrow>
      SugaredLogger_log E enc now DebugLevel msg kvs l = l \<and>
      SugaredLogger_log E enc now InfoLevel msg kvs l = l \<and>
      SugaredLogger_log E enc now WarnLevel msg kvs l =
        l\<lparr>fluent := snd (Write_atomic E now (enc WarnLevel msg kvs) (fluent l))\<rparr> \<and>
      SugaredLogger_log E enc now ErrorLevel msg kvs l =
        l\<lparr>fluent := snd (Write_atomic E now (enc ErrorLevel msg kvs) (fluent l))\<rparr>) \<and>
   (NewSugaredLogger fluent_New UnmarshalText cfg = Inr l \<longrightarrow>
      core_level l = parseLogLevel UnmarshalText (LogLevel cfg)) \<and>
   (NewWrappedLogger fluent_New cfg' = Inr l \<longrightarrow> core_level l = InfoLevel)"
proof (intro conjI impI)
  assume "level_value lvl < level_value (core_level l)"
  then show "SugaredLogger_log E enc now lvl msg kvs l = l"
    and "WrappedLogger_log E enc now lvl msg kvs l = l"
    by (simp_all add: SugaredLogger_log_def WrappedLogger_log_def)
next
  assume w: "core_level l = WarnLevel"
  then show "SugaredLogger_log E enc now DebugLevel msg kvs l = l"
    and "SugaredLogger_log E enc now InfoLevel msg kvs l = l"
    by (simp_all add: SugaredLogger_log_def)
  from w show "SugaredLogger_log E enc now WarnLevel msg kvs l =
      l\<lparr>fluent := snd (Write_atomic E now (enc WarnLevel msg kvs) (fluent l))\<rparr>"
    and "SugaredLogger_log E enc now ErrorLevel msg kvs l =
      l\<lparr>fluent := snd (Write_atomic E now (enc ErrorLevel msg kvs) (fluent l))\<rparr>"
    by (simp_all add: SugaredLogger_log_def)
next
  assume "NewSugaredLogger fluent_New UnmarshalText cfg = Inr l"
  then show "core_level l = parseLogLevel UnmarshalText (LogLevel cfg)"
    by (auto simp add: NewSugaredLogger_def Let_def split: option.splits if_splits)
next
  assume "NewWrappedLogger fluent_New cfg' = Inr l"
  then show "core_level l = InfoLevel"
    by (auto simp add: NewWrappedLogger_def Let_def split: option.splits)
qed

theorem level_gate_witness:
  "(\<exists>l. NewSugaredLogger sample_fluent_New canonical_UnmarshalText sample_SugaredLoggerConfig =
          Inr l \<and>
        core_level l = WarnLevel \<and>
        SugaredLogger_log (sample_env None) sample_encode 7 DebugLevel ''d'' [] l = l \<and>
        SugaredLogger_log (sample_env None) sample_encode 7 InfoLevel ''i'' [] l = l \<and>
        events (fluent (SugaredLogger_log (sample_env None) sample_encode 7 WarnLevel ''w'' [] l)) =
          [PostCalled ''app.logs'' 7 [(''message'', JString ''hi'')]] \<and>
        events (fluent (SugaredLogger_log (sample_env None) sample_encode 7 ErrorLevel ''e'' [] l)) =
          [PostCalled ''app.logs'' 7 [(''message'', JString ''hi'')]])"
proof -
  let ?f = "\<lparr>tag = ''app.logs'', closed = False, timeout = 5000000000, events = [],
      closing = None\<rparr>"
  let ?l = "\<lparr>core_level = WarnLevel, fluent = ?f, closeOnce = False\<rparr>"
  let ?E = "sample_env None"
  have lv: "core_level ?l = WarnLevel" by simp
  have wr: "snd (Write_atomic ?E 7 (sample_encode v m []) ?f) =
      ?f\<lparr>events := [PostCalled ''app.logs'' 7 [(''message'', JString ''hi'')]]\<rparr>" for v m
    by (simp add: Write_atomic_def sample_env_def sample_encode_def sample_Unmarshal_def
        sample_Post_def)
  note G = level_gate [where l = ?l and E = ?E and enc = sample_encode and now = 7
      and kvs = "[]" and fluent_New = sample_fluent_New
      and UnmarshalText = canonical_UnmarshalText and cfg = sample_SugaredLoggerConfig]
  from G [where msg = "''d''"] lv
  have 1: "SugaredLogger_log ?E sample_encode 7 DebugLevel ''d'' [] ?l = ?l" by blast
  from G [where msg = "''i''"] lv
  have 2: "SugaredLogger_log ?E sample_encode 7 InfoLevel ''i'' [] ?l = ?l" by blast
  from G [where msg = "''w''"] lv
  have "SugaredLogger_log ?E sample_encode 7 WarnLevel ''w'' [] ?l =
      ?l\<lparr>fluent := snd (Write_atomic ?E 7 (sample_encode WarnLevel ''w'' []) (fluent ?l))\<rparr>"
    by blast
  then have 3: "events (fluent (SugaredLogger_log ?E sample_encode 7 WarnLevel ''w'' [] ?l)) =
      [PostCalled ''app.logs'' 7 [(''message'', JString ''hi'')]]"
    by (simp add: wr)
  from G [where msg = "''e''"] lv
  have "SugaredLogger_log ?E sample_encode 7 ErrorLevel ''e'' [] ?l =
      ?l\<lparr>fluent := snd (Write_atomic ?E 7 (sample_encode ErrorLevel ''e'' []) (fluent ?l))\<rparr>"
    by blast
  then have 4: "events (fluent (SugaredLogger_log ?E sample_encode 7 ErrorLevel ''e'' [] ?l)) =
      [PostCalled ''app.logs'' 7 [(''message'', JString ''hi'')]]"
    by (simp add: wr)
  from NewSugaredLogger_sample lv 1 2 3 4 show ?thesis
    by blast
qed

end
